theory Spec2Isabelle
  imports Main "HOL-Library.Word"
begin

unbundle bit_operations_syntax

section \<open>Values shared by the volume and descriptor operations\<close>

text \<open>
  \<open>syscall.Errno\<close> is a number; cgo hands the C \<open>errno\<close> over as the error value of a
  call, and as \<open>nil\<close> when \<open>errno\<close> is zero. The numbers are those of Linux.
\<close>

type_synonym errno = nat

definition ENOENT :: errno where "ENOENT = 2"
definition EEXIST :: errno where "EEXIST = 17"
definition ENOTDIR :: errno where "ENOTDIR = 20"
definition EISDIR :: errno where "EISDIR = 21"
definition ENODATA :: errno where "ENODATA = 61"

text \<open>
  A Go \<open>error\<close> of this package is either the bare \<open>syscall.Errno\<close> of a failed call or an
  \<open>os.PathError{Op, Path, Err}\<close>, whose \<open>Err\<close> is again what cgo returned (possibly \<open>nil\<close>).
\<close>

datatype error = Errno errno | PathError string string "errno option"

type_synonym FileMode = "32 word"
type_synonym mode_t = "32 word"

text \<open>
  Modelled from the spec: \<open>fileInfoFromStat\<close> and the \<open>os.FileInfo\<close> it builds are defined in
  a file of the package other than \<open>volume.go\<close>. Section 3 of the specification describes the
  value as "produced from a remote stat buffer" with a "file-type flag
  (regular/directory/symlink/other)"; the name and that flag are what is kept here.
\<close>

datatype file_type = Regular | Directory | Symlink | Other

record Stat_t =
  st_type :: file_type

record FileInfo =
  fi_name :: string
  fi_type :: file_type

definition fileInfoFromStat :: "Stat_t \<Rightarrow> string \<Rightarrow> FileInfo" where
  "fileInfoFromStat stat name = \<lparr>fi_name = name, fi_type = st_type stat\<rparr>"

definition IsDir :: "FileInfo \<Rightarrow> bool" where
  "IsDir fi = (fi_type fi = Directory)"

section \<open>The native library, as far as the path operations use it\<close>

text \<open>
  The calls into \<open>glfs\<close> are parameters of the model. \<open>'fs\<close> is the state of the remote
  volume. A call that fails returns the \<open>errno\<close> it failed with (\<open>Inl\<close>, or \<open>Some\<close> for
  \<open>glfs_mkdir\<close>, which has no other result). \<open>glfs_stat\<close> and \<open>glfs_lstat\<close> read the volume,
  \<open>glfs_mkdir\<close> may change it. \<open>posixMode\<close> is the package's conversion of an
  \<open>os.FileMode\<close> to a \<open>mode_t\<close>; it is defined outside \<open>volume.go\<close>.
\<close>

record 'fs glfs =
  glfs_stat :: "'fs \<Rightarrow> string \<Rightarrow> errno + Stat_t"
  glfs_lstat :: "'fs \<Rightarrow> string \<Rightarrow> errno + Stat_t"
  glfs_mkdir :: "'fs \<Rightarrow> string \<Rightarrow> mode_t \<Rightarrow> errno option \<times> 'fs"
  posixMode :: "FileMode \<Rightarrow> mode_t"

definition Lstat :: "'fs glfs \<Rightarrow> 'fs \<Rightarrow> string \<Rightarrow> error + FileInfo" where
  "Lstat g s name =
     (case glfs_lstat g s name of
        Inl err \<Rightarrow> Inl (Errno err)
      | Inr stat \<Rightarrow> Inr (fileInfoFromStat stat name))"

definition Mkdir :: "'fs glfs \<Rightarrow> 'fs \<Rightarrow> string \<Rightarrow> FileMode \<Rightarrow> error option \<times> 'fs" where
  "Mkdir g s name perm =
     (case glfs_mkdir g s name (posixMode g perm) of
        (Some err, s') \<Rightarrow> (Some (PathError ''mkdir'' name (Some err)), s')
      | (None, s') \<Rightarrow> (None, s'))"

definition Stat :: "'fs glfs \<Rightarrow> 'fs \<Rightarrow> string \<Rightarrow> error + FileInfo" where
  "Stat g s name =
     (case glfs_stat g s name of
        Inl err \<Rightarrow> Inl (PathError ''stat'' name (Some err))
      | Inr stat \<Rightarrow> Inr (fileInfoFromStat stat name))"

section \<open>MkdirAll\<close>

text \<open>\<open>os.IsPathSeparator\<close> on the Unix systems the package builds for.\<close>

definition IsPathSeparator :: "char \<Rightarrow> bool" where
  "IsPathSeparator c = (c = CHR ''/'')"

text \<open>
  The two scanning loops of \<open>MkdirAll\<close>. Each starts at an index \<open>i\<close> and steps down while
  \<open>i > 0\<close> and the byte \<open>path[i-1]\<close> is (respectively is not) a separator; the value is the
  index at which the loop stops.
\<close>

fun skip_trailing :: "string \<Rightarrow> nat \<Rightarrow> nat" where
  "skip_trailing path 0 = 0"
| "skip_trailing path (Suc i) =
     (if IsPathSeparator (path ! i) then skip_trailing path i else Suc i)"

fun scan_element :: "string \<Rightarrow> nat \<Rightarrow> nat" where
  "scan_element path 0 = 0"
| "scan_element path (Suc j) =
     (if \<not> IsPathSeparator (path ! j) then scan_element path j else Suc j)"

text \<open>The index \<open>j\<close> that \<open>MkdirAll\<close> computes: the parent is \<open>path[0:j-1]\<close> when \<open>j > 1\<close>.\<close>

definition parent_end :: "string \<Rightarrow> nat" where
  "parent_end path = scan_element path (skip_trailing path (length path))"

lemma skip_trailing_le: "skip_trailing path i \<le> i"
  by (induction i) auto

lemma scan_element_le: "scan_element path j \<le> j"
  by (induction j) auto

lemma parent_end_le: "parent_end path \<le> length path"
  unfolding parent_end_def
  by (rule order_trans [OF scan_element_le skip_trailing_le])

function MkdirAll :: "'fs glfs \<Rightarrow> 'fs \<Rightarrow> string \<Rightarrow> FileMode \<Rightarrow> error option \<times> 'fs" where
  "MkdirAll g s path perm =
     (case Stat g s path of
        Inr dir \<Rightarrow>
          if IsDir dir then (None, s)
          else (Some (PathError ''mkdir'' path (Some ENOTDIR)), s)
      | Inl _ \<Rightarrow>
          (let j = parent_end path in
           case (if j > 1 then MkdirAll g s (take (j - 1) path) perm else (None, s)) of
             (Some err, s1) \<Rightarrow> (Some err, s1)
           | (None, s1) \<Rightarrow>
               (case Mkdir g s1 path perm of
                  (Some err, s2) \<Rightarrow>
                    (case Lstat g s2 path of
                       Inr dir \<Rightarrow> if IsDir dir then (None, s2) else (Some err, s2)
                     | Inl err1 \<Rightarrow> (Some err, s2))
                | (None, s2) \<Rightarrow> (None, s2))))"
  by pat_completeness auto
termination
proof (relation "measure (\<lambda>(g, s, path, perm). length path)")
  show "wf (measure (\<lambda>(g, s, path, perm). length path))" by simp
next
  fix g :: "'fs glfs" and s :: 'fs and path :: string and perm :: FileMode and j :: nat
  assume "j = parent_end path" and "1 < j"
  with parent_end_le [of path]
  show "((g, s, take (j - 1) path, perm), (g, s, path, perm))
          \<in> measure (\<lambda>(g, s, path, perm). length path)"
    by simp
qed

declare MkdirAll.simps [simp del]

text \<open>
  The chain of parents that the recursion of \<open>MkdirAll\<close> walks: \<open>path[0:j-1]\<close>, its own
  parent, and so on, as long as \<open>j > 1\<close>.
\<close>

function ancestors :: "string \<Rightarrow> string list" where
  "ancestors path =
     (let j = parent_end path in
      if j > 1 then take (j - 1) path # ancestors (take (j - 1) path) else [])"
  by pat_completeness auto
termination
proof (relation "measure length")
  show "wf (measure (length :: string \<Rightarrow> nat))" by simp
next
  fix path :: string and j :: nat
  assume "j = parent_end path" and "1 < j"
  with parent_end_le [of path]
  show "(take (j - 1) path, path) \<in> measure length"
    by simp
qed

declare ancestors.simps [simp del]

text \<open>
  A volume that also records every call of \<open>glfs_mkdir\<close>, in order: the state is paired with
  the list of the paths the primitive was called with.
\<close>

definition logged :: "'fs glfs \<Rightarrow> ('fs \<times> string list) glfs" where
  "logged g =
     \<lparr>glfs_stat = (\<lambda>(s, l) p. glfs_stat g s p),
      glfs_lstat = (\<lambda>(s, l) p. glfs_lstat g s p),
      glfs_mkdir = (\<lambda>(s, l) p m.
         case glfs_mkdir g s p m of (r, s') \<Rightarrow> (r, (s', l @ [p]))),
      posixMode = posixMode g\<rparr>"



text \<open>
  A small volume for concrete runs: a table from paths to entry types. A path that ends in
  \<open>/.\<close> names the entry before it. \<open>glfs_stat\<close> follows a symbolic link, and every link of
  this volume dangles, so \<open>glfs_stat\<close> fails on it with \<open>ENOENT\<close>; \<open>glfs_lstat\<close> reports the
  link itself. \<open>glfs_mkdir\<close> fails with \<open>EEXIST\<close> on a name that is taken.
\<close>

type_synonym table = "string \<Rightarrow> file_type option"

definition resolve :: "string \<Rightarrow> string" where
  "resolve p =
     (if 2 \<le> length p \<and> drop (length p - 2) p = ''/.'' then take (length p - 2) p else p)"

definition table_fs :: "table glfs" where
  "table_fs =
     \<lparr>glfs_stat = (\<lambda>s p.
         case s (resolve p) of
           None \<Rightarrow> Inl ENOENT
         | Some Symlink \<Rightarrow> Inl ENOENT
         | Some t \<Rightarrow> Inr \<lparr>st_type = t\<rparr>),
      glfs_lstat = (\<lambda>s p.
         case s (resolve p) of
           None \<Rightarrow> Inl ENOENT
         | Some t \<Rightarrow> Inr \<lparr>st_type = t\<rparr>),
      glfs_mkdir = (\<lambda>s p m.
         case s (resolve p) of
           None \<Rightarrow> (None, s(resolve p \<mapsto> Directory))
         | Some t \<Rightarrow> (Some EEXIST, s)),
      posixMode = (\<lambda>m. m AND 0x1FF)\<rparr>"

section \<open>Open and OpenFile\<close>

text \<open>
  \<open>File{name, Fd{cfd}, isDir}\<close>: the three fields in the order of the composite literal.
  \<open>'h\<close> is the native descriptor \<open>*C.glfs_fd_t\<close>; a \<open>nil\<close> descriptor is \<open>None\<close>.
\<close>

record 'h File =
  f_name :: string
  f_fd :: 'h
  f_isDir :: bool

text \<open>
  A cgo call that opens something returns the pair of the descriptor and the error value made
  from \<open>errno\<close>, and may change the volume. The code looks at the two components
  separately, so the model keeps both. \<open>flags\<close> is a Go \<open>int\<close> (64 bits), cut to a C \<open>int\<close>
  by \<open>C.int(flags)\<close>.
\<close>

type_synonym ('fs, 'h) opened = "('h option \<times> errno option) \<times> 'fs"

definition O_CREATE :: "64 word" where "O_CREATE = 0x40"

definition Open ::
  "('fs \<Rightarrow> string \<Rightarrow> 32 word \<Rightarrow> ('fs, 'h) opened) \<Rightarrow> ('fs \<Rightarrow> string \<Rightarrow> ('fs, 'h) opened) \<Rightarrow>
   'fs \<Rightarrow> string \<Rightarrow> 64 word \<Rightarrow> (error + 'h File) \<times> 'fs" where
  "Open glfs_open glfs_opendir s name flags =
     (let isDir0 = False;
          first = glfs_open s name (ucast flags);
          (isDir1, (cfd, err), s') =
             (if snd (fst first) = Some EISDIR
              then (True, glfs_opendir (snd first) name)
              else (isDir0, first))
      in case cfd of
           None \<Rightarrow> (Inl (PathError ''open'' name err), s')
         | Some h \<Rightarrow> (Inr \<lparr>f_name = name, f_fd = h, f_isDir = isDir1\<rparr>, s'))"

definition OpenFile ::
  "(FileMode \<Rightarrow> mode_t) \<Rightarrow> ('fs \<Rightarrow> string \<Rightarrow> 32 word \<Rightarrow> mode_t \<Rightarrow> ('fs, 'h) opened) \<Rightarrow>
   ('fs \<Rightarrow> string \<Rightarrow> 32 word \<Rightarrow> ('fs, 'h) opened) \<Rightarrow> ('fs \<Rightarrow> string \<Rightarrow> ('fs, 'h) opened) \<Rightarrow>
   'fs \<Rightarrow> string \<Rightarrow> 64 word \<Rightarrow> FileMode \<Rightarrow> (error + 'h File) \<times> 'fs" where
  "OpenFile posix_mode glfs_creat glfs_open glfs_opendir s name flags perm =
     (let isDir0 = False;
          first =
             (if O_CREATE AND flags = O_CREATE
              then glfs_creat s name (ucast flags) (posix_mode perm)
              else glfs_open s name (ucast flags));
          (isDir1, (cfd, err), s') =
             (if snd (fst first) = Some EISDIR
              then (True, glfs_opendir (snd first) name)
              else (isDir0, first))
      in case cfd of
           None \<Rightarrow> (Inl (PathError ''open'' name err), s')
         | Some h \<Rightarrow> (Inr \<lparr>f_name = name, f_fd = h, f_isDir = isDir1\<rparr>, s'))"

text \<open>
  What \<open>Open\<close> and \<open>OpenFile\<close> both do with the result \<open>first\<close> of their initial attempt,
  written once for the proofs.
\<close>

definition attempt_then_opendir ::
  "('fs \<Rightarrow> string \<Rightarrow> ('fs, 'h) opened) \<Rightarrow> string \<Rightarrow> ('fs, 'h) opened \<Rightarrow> (error + 'h File) \<times> 'fs" where
  "attempt_then_opendir glfs_opendir name first =
     (let (isDir1, (cfd, err), s') =
             (if snd (fst first) = Some EISDIR
              then (True, glfs_opendir (snd first) name)
              else (False, first))
      in case cfd of
           None \<Rightarrow> (Inl (PathError ''open'' name err), s')
         | Some h \<Rightarrow> (Inr \<lparr>f_name = name, f_fd = h, f_isDir = isDir1\<rparr>, s'))"

section \<open>Buffers handed to the native library\<close>

text \<open>
  A Go byte is a \<open>char\<close>, a \<open>[]byte\<close> a \<open>string\<close>. What a wrapper passes for a buffer is
  \<open>nil\<close>, the address of the package variable \<open>_zero\<close>, or the address of the first element
  of a slice. Taking \<open>&b[0]\<close> of a slice of length zero is a run-time panic (index out of
  range), which happens while the arguments are evaluated, before the call is made.
\<close>

datatype pointer = Nil | Zero | Elem0

datatype panic = IndexOutOfRange

definition addr0 :: "string \<Rightarrow> panic + pointer" where
  "addr0 b = (if length b = 0 then Inl IndexOutOfRange else Inr Elem0)"

section \<open>Path operations with a buffer\<close>

text \<open>
  \<open>glfs_getxattr(fs, path, name, value, size)\<close> for the mounted volume: the buffer argument is
  \<open>None\<close> for a \<open>nil\<close> pointer and otherwise the bytes of \<open>dest\<close>; the result is the returned
  \<open>ssize_t\<close>, the error value of cgo, and the bytes of the buffer after the call.
\<close>

type_synonym xattr_call = "string option \<Rightarrow> nat \<Rightarrow> int \<times> errno option \<times> string"

definition Getxattr ::
  "(string \<Rightarrow> string \<Rightarrow> xattr_call) \<Rightarrow> string \<Rightarrow> string \<Rightarrow> string \<Rightarrow>
   (int \<times> errno option) \<times> string" where
  "Getxattr glfs_getxattr path attr dest =
     (let (ret, err, dest') =
            (if length dest \<le> 0
             then (case glfs_getxattr path attr None 0 of (ret, err, _) \<Rightarrow> (ret, err, dest))
             else glfs_getxattr path attr (Some dest) (length dest))
      in if ret \<ge> 0 then ((ret, None), dest') else ((ret, err), dest'))"

text \<open>
  \<open>Statvfs\<close>: the named result \<open>buf\<close> is a \<open>nil\<close> pointer when the function starts and is
  never assigned; \<open>unsafe.Pointer(buf)\<close> is what the call receives. \<open>'sv\<close> is \<open>Statvfs_t\<close>.
\<close>

definition Statvfs ::
  "(string \<Rightarrow> 'sv option \<Rightarrow> int \<times> errno option) \<Rightarrow> string \<Rightarrow> 'sv option \<times> errno option" where
  "Statvfs glfs_statvfs path =
     (let buf = None;
          (ret, err) = glfs_statvfs path buf;
          err = (if ret = 0 then None else err)
      in (buf, err))"

text \<open>
  \<open>Readlink\<close>: \<open>var buf []byte\<close> is the \<open>nil\<close> slice, of length zero. The call would receive
  \<open>&buf[0]\<close> and \<open>len(buf)\<close> and return the status, the error value and the bytes now in the
  buffer.
\<close>

definition Readlink ::
  "(string \<Rightarrow> pointer \<Rightarrow> nat \<Rightarrow> int \<times> errno option \<times> string) \<Rightarrow> string \<Rightarrow>
   panic + (string \<times> errno option)" where
  "Readlink glfs_readlink path =
     (let buf = [] in
      case addr0 buf of
        Inl p \<Rightarrow> Inl p
      | Inr ptr \<Rightarrow>
          (case glfs_readlink path ptr (length buf) of
             (ret, err, buf') \<Rightarrow> if ret < 0 then Inr ([], err) else Inr (buf', None)))"

section \<open>Descriptor operations\<close>

text \<open>
  The read and write calls get the descriptor state \<open>'d\<close>, the buffer pointer and the count
  (and an offset when positioned), and return the \<open>ssize_t\<close> and the error value of cgo
  with the new state. The bytes moved are not part of the model.
\<close>

type_synonym 'd io = "(int \<times> errno option) \<times> 'd"

definition Pread ::
  "('d \<Rightarrow> pointer \<Rightarrow> nat \<Rightarrow> int \<Rightarrow> 'd io) \<Rightarrow> 'd \<Rightarrow> string \<Rightarrow> int \<Rightarrow> panic + 'd io" where
  "Pread glfs_pread fd b off =
     (case addr0 b of
        Inl p \<Rightarrow> Inl p
      | Inr ptr \<Rightarrow> Inr (glfs_pread fd ptr (length b) off))"

definition Pwrite ::
  "('d \<Rightarrow> pointer \<Rightarrow> nat \<Rightarrow> int \<Rightarrow> 'd io) \<Rightarrow> 'd \<Rightarrow> string \<Rightarrow> int \<Rightarrow> panic + 'd io" where
  "Pwrite glfs_pwrite fd b off =
     (case addr0 b of
        Inl p \<Rightarrow> Inl p
      | Inr ptr \<Rightarrow> Inr (glfs_pwrite fd ptr (length b) off))"

definition Read ::
  "('d \<Rightarrow> pointer \<Rightarrow> nat \<Rightarrow> 'd io) \<Rightarrow> 'd \<Rightarrow> string \<Rightarrow> panic + 'd io" where
  "Read glfs_read fd b =
     (case (if length b > 0 then addr0 b else Inr Zero) of
        Inl p \<Rightarrow> Inl p
      | Inr p0 \<Rightarrow>
          (case glfs_read fd p0 (length b) of
             ((n, e1), fd') \<Rightarrow> Inr ((n, if n < 0 then e1 else None), fd')))"

definition Write ::
  "('d \<Rightarrow> pointer \<Rightarrow> nat \<Rightarrow> 'd io) \<Rightarrow> 'd \<Rightarrow> string \<Rightarrow> panic + 'd io" where
  "Write glfs_write fd b =
     (case (if length b > 0 then addr0 b else Inr Zero) of
        Inl p \<Rightarrow> Inl p
      | Inr p0 \<Rightarrow>
          (case glfs_write fd p0 (length b) of
             ((n, e1), fd') \<Rightarrow> Inr ((n, if n < 0 then e1 else None), fd')))"

definition Fgetxattr ::
  "(string \<Rightarrow> xattr_call) \<Rightarrow> string \<Rightarrow> string \<Rightarrow> (int \<times> errno option) \<times> string" where
  "Fgetxattr glfs_fgetxattr attr dest =
     (let (ret, err, dest') =
            (if length dest \<le> 0
             then (case glfs_fgetxattr attr None 0 of (ret, err, _) \<Rightarrow> (ret, err, dest))
             else glfs_fgetxattr attr (Some dest) (length dest))
      in if ret \<ge> 0 then ((ret, None), dest') else ((ret, err), dest'))"

section \<open>Directory enumeration\<close>

text \<open>
  \<open>syscall.Dirent\<close>: of its fields the code reads \<open>Name\<close>, an array \<open>[256]int8\<close>, the C
  \<open>char d_name[256]\<close>. The loop of \<open>direntName\<close> ranges over the elements with their index.
\<close>

record Dirent =
  Name :: string

fun direntName_loop :: "nat \<Rightarrow> string \<Rightarrow> string \<Rightarrow> string" where
  "direntName_loop i [] name = name"
| "direntName_loop i (c # cs) name =
     (if c = CHR 0x00 \<or> i > 255 then name
      else direntName_loop (i + 1) cs (name @ [c]))"

definition direntName :: "Dirent \<Rightarrow> string" where
  "direntName dirent = direntName_loop 0 (Name dirent) []"

text \<open>
  The loops of \<open>Readdir\<close> and \<open>Readdirnames\<close>: \<open>for i := 0; n == 0 || i < n; i++\<close>. With
  \<open>n = 0\<close> the loop ends only when the library returns no entry (or an error), so the loop
  is a partial function and \<open>None\<close> stands for a call that does not return. The counter is
  compared only when \<open>n\<close> is not zero, where it stays below \<open>n\<close>; it is an \<open>int\<close> here.
  \<open>glfs_readdirplus\<close> also fills the stat buffer it is given.
\<close>

partial_function (option) Readdir_loop ::
  "('d \<Rightarrow> (Dirent option \<times> errno option \<times> Stat_t) \<times> 'd) \<Rightarrow> int \<Rightarrow> int \<Rightarrow> 'd \<Rightarrow>
   FileInfo list \<Rightarrow> ((FileInfo list \<times> errno option) \<times> 'd) option" where
  "Readdir_loop glfs_readdirplus n i fd files =
     (if n = 0 \<or> i < n then
        (case glfs_readdirplus fd of
           ((d, Some err, stat), fd') \<Rightarrow> Some (([], Some err), fd')
         | ((None, None, stat), fd') \<Rightarrow> Some ((files, None), fd')
         | ((Some dirent, None, stat), fd') \<Rightarrow>
             Readdir_loop glfs_readdirplus n (i + 1) fd'
               (files @ [fileInfoFromStat stat (direntName dirent)]))
      else Some ((files, None), fd))"

definition Readdir ::
  "('d \<Rightarrow> (Dirent option \<times> errno option \<times> Stat_t) \<times> 'd) \<Rightarrow> int \<Rightarrow> 'd \<Rightarrow>
   ((FileInfo list \<times> errno option) \<times> 'd) option" where
  "Readdir glfs_readdirplus n fd = Readdir_loop glfs_readdirplus n 0 fd []"

partial_function (option) Readdirnames_loop ::
  "('d \<Rightarrow> (Dirent option \<times> errno option) \<times> 'd) \<Rightarrow> int \<Rightarrow> int \<Rightarrow> 'd \<Rightarrow>
   string list \<Rightarrow> ((string list \<times> errno option) \<times> 'd) option" where
  "Readdirnames_loop glfs_readdir n i fd names =
     (if n = 0 \<or> i < n then
        (case glfs_readdir fd of
           ((d, Some err), fd') \<Rightarrow> Some (([], Some err), fd')
         | ((None, None), fd') \<Rightarrow> Some ((names, None), fd')
         | ((Some dirent, None), fd') \<Rightarrow>
             Readdirnames_loop glfs_readdir n (i + 1) fd' (names @ [direntName dirent]))
      else Some ((names, None), fd))"

definition Readdirnames ::
  "('d \<Rightarrow> (Dirent option \<times> errno option) \<times> 'd) \<Rightarrow> int \<Rightarrow> 'd \<Rightarrow>
   ((string list \<times> errno option) \<times> 'd) option" where
  "Readdirnames glfs_readdir n fd = Readdirnames_loop glfs_readdir n 0 fd []"

section \<open>Concrete collaborators for running the operations\<close>

text \<open>
  A directory stream that serves the entries of a list, one per call, and then keeps
  returning no entry and no error: the state of the descriptor is the list of the entries
  not yet served. The second stream also fills the stat buffer.
\<close>

definition list_readdir :: "Dirent list \<Rightarrow> (Dirent option \<times> errno option) \<times> Dirent list" where
  "list_readdir ds =
     (case ds of [] \<Rightarrow> ((None, None), []) | d # ds' \<Rightarrow> ((Some d, None), ds'))"

definition list_readdirplus ::
  "(Dirent \<times> Stat_t) list \<Rightarrow>
   (Dirent option \<times> errno option \<times> Stat_t) \<times> (Dirent \<times> Stat_t) list" where
  "list_readdirplus es =
     (case es of
        [] \<Rightarrow> ((None, None, \<lparr>st_type = Other\<rparr>), [])
      | (d, st) # es' \<Rightarrow> ((Some d, None, st), es'))"

text \<open>A directory entry whose 256-byte name buffer holds \<open>nm\<close> followed by zero bytes.\<close>

definition entry :: "string \<Rightarrow> Dirent" where
  "entry nm = \<lparr>Name = nm @ replicate (256 - length nm) (CHR 0x00)\<rparr>"

definition five_entries :: "Dirent list" where
  "five_entries = map entry [''a'', ''b'', ''c'', ''d'', ''e'']"

text \<open>
  The convention of \<open>getxattr(2)\<close> for an attribute whose value is \<open>v\<close>, as a property of the
  call with the path (or descriptor) and the attribute name already supplied: with size zero
  the call returns the length of the value; with a buffer that is large enough it returns
  the same length and stores the value at the start of the buffer. Nothing is required of
  the error value that cgo reads from \<open>errno\<close>.
\<close>

definition getxattr_convention :: "xattr_call \<Rightarrow> string \<Rightarrow> bool" where
  "getxattr_convention call v =
     (fst (call None 0) = int (length v) \<and>
      (\<forall>dest. dest \<noteq> [] \<and> length v \<le> length dest \<longrightarrow>
         fst (call (Some dest) (length dest)) = int (length v) \<and>
         snd (snd (call (Some dest) (length dest))) = v @ drop (length v) dest))"

text \<open>Extended attributes kept in a table from path and attribute name to the value.\<close>

definition ERANGE :: errno where "ERANGE = 34"

definition table_getxattr ::
  "(string \<times> string \<Rightarrow> string option) \<Rightarrow> string \<Rightarrow> string \<Rightarrow> xattr_call" where
  "table_getxattr t path attr buf sz =
     (let b = (case buf of None \<Rightarrow> [] | Some b \<Rightarrow> b) in
      case t (path, attr) of
        None \<Rightarrow> (- 1, Some ENODATA, b)
      | Some v \<Rightarrow>
          if sz = 0 then (int (length v), None, b)
          else if sz < length v then (- 1, Some ERANGE, b)
          else (int (length v), None, v @ drop (length v) b))"

text \<open>
  Opening on the table volume: the descriptor of an entry is its path. \<open>glfs_open\<close> and
  \<open>glfs_creat\<close> refuse a directory with \<open>EISDIR\<close>, \<open>glfs_opendir\<close> opens directories only.
\<close>

definition table_open :: "table \<Rightarrow> string \<Rightarrow> 32 word \<Rightarrow> (table, string) opened" where
  "table_open s p flags =
     (case s p of
        None \<Rightarrow> ((None, Some ENOENT), s)
      | Some Directory \<Rightarrow> ((None, Some EISDIR), s)
      | Some t \<Rightarrow> ((Some p, None), s))"

definition table_opendir :: "table \<Rightarrow> string \<Rightarrow> (table, string) opened" where
  "table_opendir s p =
     (case s p of
        None \<Rightarrow> ((None, Some ENOENT), s)
      | Some Directory \<Rightarrow> ((Some p, None), s)
      | Some t \<Rightarrow> ((None, Some ENOTDIR), s))"

definition table_creat :: "table \<Rightarrow> string \<Rightarrow> 32 word \<Rightarrow> mode_t \<Rightarrow> (table, string) opened" where
  "table_creat s p flags mode =
     (case s p of
        None \<Rightarrow> ((Some p, None), s(p \<mapsto> Regular))
      | Some Directory \<Rightarrow> ((None, Some EISDIR), s)
      | Some t \<Rightarrow> ((Some p, None), s))"

section \<open>MkdirAll: the probe, the parents, and the check after a failed Mkdir\<close>

lemma Stat_logged: "Stat (logged g) (s, l) p = Stat g s p"
  by (simp add: Stat_def logged_def)


lemma MkdirAll_notdir:
  assumes "Stat g s path = Inr dir" and "\<not> IsDir dir"
  shows "MkdirAll g s path perm = (Some (PathError ''mkdir'' path (Some ENOTDIR)), s)"
  using assms by (simp add: MkdirAll.simps)

lemma MkdirAll_parent_fails:
  assumes "Stat g s path = Inl e0" and "1 < parent_end path"
    and "MkdirAll g s (take (parent_end path - 1) path) perm = (Some err, s1)"
  shows "MkdirAll g s path perm = (Some err, s1)"
  using assms by (subst MkdirAll.simps) (simp add: Let_def)




text \<open>Evaluation of the table volume on the inputs used below.\<close>

lemmas table_eval =
  Stat_def Lstat_def Mkdir_def table_fs_def resolve_def parent_end_def IsPathSeparator_def
  fileInfoFromStat_def IsDir_def

text \<open>
  C1. When the probe with \<open>Stat\<close> has failed, the parent (if any) has been ensured, and
  \<open>Mkdir\<close> of the target itself fails with \<open>err\<close>, the result of \<open>MkdirAll\<close> is decided by
  \<open>Lstat\<close> of the path in the state that the failed \<open>Mkdir\<close> left: success exactly when
  \<open>Lstat\<close> returns an entry that is a directory, and otherwise the error \<open>err\<close> of \<open>Mkdir\<close>,
  also when \<open>Lstat\<close> itself fails with an error \<open>err1\<close>.
\<close>

theorem MkdirAll_recheck:
  assumes "Stat g s path = Inl e0"
    and "(if 1 < parent_end path then MkdirAll g s (take (parent_end path - 1) path) perm
          else (None, s)) = (None, s1)"
    and "Mkdir g s1 path perm = (Some err, s2)"
  shows "MkdirAll g s path perm =
           (case Lstat g s2 path of
              Inr dir \<Rightarrow> if IsDir dir then None else Some err
            | Inl err1 \<Rightarrow> Some err, s2)"
  using assms
  by (subst MkdirAll.simps) (simp add: Let_def split: sum.splits)

text \<open>
  Two runs on the table volume. On the empty volume, \<open>a/.\<close> is not found, \<open>a\<close> is created,
  \<open>Mkdir\<close> of \<open>a/.\<close> fails with \<open>EEXIST\<close>, \<open>Lstat\<close> finds a directory, and \<open>MkdirAll\<close>
  succeeds. Where \<open>l\<close> is a dangling symbolic link, \<open>Stat\<close> fails, \<open>Mkdir\<close> fails with
  \<open>EEXIST\<close>, \<open>Lstat\<close> finds the link, and \<open>MkdirAll\<close> returns the error of \<open>Mkdir\<close>.
\<close>

theorem MkdirAll_recheck_witness:
  "Stat table_fs Map.empty ''a/.'' = Inl (PathError ''stat'' ''a/.'' (Some ENOENT)) \<and>
   (if 1 < parent_end ''a/.''
    then MkdirAll table_fs Map.empty (take (parent_end ''a/.'' - 1) ''a/.'') 0x1ED
    else (None, Map.empty)) = (None, [''a'' \<mapsto> Directory]) \<and>
   Mkdir table_fs [''a'' \<mapsto> Directory] ''a/.'' 0x1ED =
     (Some (PathError ''mkdir'' ''a/.'' (Some EEXIST)), [''a'' \<mapsto> Directory]) \<and>
   MkdirAll table_fs Map.empty ''a/.'' 0x1ED = (None, [''a'' \<mapsto> Directory]) \<and>
   Stat table_fs [''l'' \<mapsto> Symlink] ''l'' = Inl (PathError ''stat'' ''l'' (Some ENOENT)) \<and>
   Mkdir table_fs [''l'' \<mapsto> Symlink] ''l'' 0x1ED =
     (Some (PathError ''mkdir'' ''l'' (Some EEXIST)), [''l'' \<mapsto> Symlink]) \<and>
   MkdirAll table_fs [''l'' \<mapsto> Symlink] ''l'' 0x1ED =
     (Some (PathError ''mkdir'' ''l'' (Some EEXIST)), [''l'' \<mapsto> Symlink])"
proof -
  let ?s1 = "[''a'' \<mapsto> Directory]" and ?l = "[''l'' \<mapsto> Symlink]"
  have a1: "Stat table_fs Map.empty ''a/.'' = Inl (PathError ''stat'' ''a/.'' (Some ENOENT))"
    by (simp add: table_eval)
  have a2: "(if 1 < parent_end ''a/.''
      then MkdirAll table_fs Map.empty (take (parent_end ''a/.'' - 1) ''a/.'') 0x1ED
      else (None, Map.empty)) = (None, ?s1)"
    by (simp add: MkdirAll.simps table_eval)
  have a3: "Mkdir table_fs ?s1 ''a/.'' 0x1ED =
      (Some (PathError ''mkdir'' ''a/.'' (Some EEXIST)), ?s1)"
    by (simp add: table_eval)
  have b1: "Stat table_fs ?l ''l'' = Inl (PathError ''stat'' ''l'' (Some ENOENT))"
    by (simp add: table_eval)
  have b2: "(if 1 < parent_end ''l''
      then MkdirAll table_fs ?l (take (parent_end ''l'' - 1) ''l'') 0x1ED
      else (None, ?l)) = (None, ?l)"
    by (simp add: table_eval)
  have b3: "Mkdir table_fs ?l ''l'' 0x1ED = (Some (PathError ''mkdir'' ''l'' (Some EEXIST)), ?l)"
    by (simp add: table_eval)
  have "MkdirAll table_fs Map.empty ''a/.'' 0x1ED = (None, ?s1)"
    using MkdirAll_recheck [OF a1 a2 a3] by (simp add: table_eval)
  moreover have "MkdirAll table_fs ?l ''l'' 0x1ED =
      (Some (PathError ''mkdir'' ''l'' (Some EEXIST)), ?l)"
    using MkdirAll_recheck [OF b1 b2 b3] by (simp add: table_eval)
  ultimately show ?thesis
    using a1 a2 a3 b1 b3 by simp
qed

section \<open>MkdirAll: a second call\<close>






section \<open>MkdirAll: a path through something that is not a directory\<close>

lemma ancestors_parent:
  "1 < parent_end path \<Longrightarrow>
   ancestors path =
     take (parent_end path - 1) path # ancestors (take (parent_end path - 1) path)"
  by (subst ancestors.simps) (simp add: Let_def)

lemma ancestors_none: "\<not> 1 < parent_end path \<Longrightarrow> ancestors path = []"
  by (subst ancestors.simps) (simp add: Let_def)

lemma MkdirAll_blocked:
  assumes "q \<in> set (path # ancestors path)"
    and "Stat g s q = Inr fi" and "\<not> IsDir fi"
    and "\<forall>p \<in> set (path # ancestors path).
           q \<in> set (ancestors p) \<longrightarrow> (\<exists>e. Stat g s p = Inl e)"
  shows "MkdirAll g s path perm = (Some (PathError ''mkdir'' q (Some ENOTDIR)), s)"
  using assms
proof (induction path rule: ancestors.induct)
  case (1 path)
  show ?case
  proof (cases "q = path")
    case True
    with "1.prems" show ?thesis by (simp add: MkdirAll_notdir)
  next
    case False
    with "1.prems" have qa: "q \<in> set (ancestors path)" by simp
    with "1.prems"(4) obtain e0 where st: "Stat g s path = Inl e0" by auto
    from qa have j: "1 < parent_end path"
      using ancestors_none [of path] by (cases "1 < parent_end path") auto
    let ?par = "take (parent_end path - 1) path"
    from qa j have q': "q \<in> set (?par # ancestors ?par)"
      by (simp add: ancestors_parent)
    have sub: "set (?par # ancestors ?par) \<subseteq> set (path # ancestors path)"
      using j by (auto simp: ancestors_parent [of path])
    have "MkdirAll g s ?par perm = (Some (PathError ''mkdir'' q (Some ENOTDIR)), s)"
      using "1.IH" [OF refl j q' "1.prems"(2,3)] "1.prems"(4) sub by blast
    with st j show ?thesis by (rule MkdirAll_parent_fails)
  qed
qed

text \<open>
  C3, as the code has it. Let \<open>q\<close> be the path itself or one of the parents that \<open>MkdirAll\<close>
  walks, let \<open>Stat\<close> (which follows symbolic links) report \<open>q\<close> as an existing entry that is
  not a directory, and let \<open>Stat\<close> fail on the paths of the walk that lie below \<open>q\<close>
  (nothing can be reached through an entry that is not a directory). Then \<open>MkdirAll\<close>
  returns the path error \<open>mkdir q: ENOTDIR\<close> and leaves the volume as it was; on the volume
  that records the calls of \<open>glfs_mkdir\<close> the record stays empty, so no directory is
  created. An entry that exists but that \<open>Stat\<close> cannot resolve is outside this statement;
  the run after the next one shows what happens there.
\<close>

theorem MkdirAll_not_a_directory:
  assumes "q \<in> set (path # ancestors path)"
    and "Stat g s q = Inr fi" and "\<not> IsDir fi"
    and "\<forall>p \<in> set (path # ancestors path).
           q \<in> set (ancestors p) \<longrightarrow> (\<exists>e. Stat g s p = Inl e)"
  shows "MkdirAll g s path perm = (Some (PathError ''mkdir'' q (Some ENOTDIR)), s) \<and>
         MkdirAll (logged g) (s, []) path perm =
           (Some (PathError ''mkdir'' q (Some ENOTDIR)), (s, []))"
proof -
  have "MkdirAll g s path perm = (Some (PathError ''mkdir'' q (Some ENOTDIR)), s)"
    using assms by (rule MkdirAll_blocked)
  moreover have "MkdirAll (logged g) (s, []) path perm =
      (Some (PathError ''mkdir'' q (Some ENOTDIR)), (s, []))"
    using assms by (intro MkdirAll_blocked [where fi = fi]) (simp_all add: Stat_logged)
  ultimately show ?thesis by simp
qed

text \<open>
  On the table volume where \<open>f\<close> is a regular file: \<open>MkdirAll\<close> of \<open>f/x/y\<close> walks to \<open>f/x\<close>
  and \<open>f\<close> and fails there; \<open>MkdirAll\<close> of \<open>f\<close> itself fails at once.
\<close>

theorem MkdirAll_not_a_directory_witness:
  "ancestors ''f/x/y'' = [''f/x'', ''f''] \<and>
   Stat table_fs [''f'' \<mapsto> Regular] ''f'' = Inr \<lparr>fi_name = ''f'', fi_type = Regular\<rparr> \<and>
   \<not> IsDir \<lparr>fi_name = ''f'', fi_type = Regular\<rparr> \<and>
   Stat table_fs [''f'' \<mapsto> Regular] ''f/x/y'' = Inl (PathError ''stat'' ''f/x/y'' (Some ENOENT)) \<and>
   Stat table_fs [''f'' \<mapsto> Regular] ''f/x'' = Inl (PathError ''stat'' ''f/x'' (Some ENOENT)) \<and>
   MkdirAll table_fs [''f'' \<mapsto> Regular] ''f/x/y'' 0x1ED =
     (Some (PathError ''mkdir'' ''f'' (Some ENOTDIR)), [''f'' \<mapsto> Regular]) \<and>
   MkdirAll (logged table_fs) ([''f'' \<mapsto> Regular], []) ''f/x/y'' 0x1ED =
     (Some (PathError ''mkdir'' ''f'' (Some ENOTDIR)), ([''f'' \<mapsto> Regular], [])) \<and>
   MkdirAll table_fs [''f'' \<mapsto> Regular] ''f'' 0x1ED =
     (Some (PathError ''mkdir'' ''f'' (Some ENOTDIR)), [''f'' \<mapsto> Regular])"
proof -
  let ?s = "[''f'' \<mapsto> Regular]" and ?fi = "\<lparr>fi_name = ''f'', fi_type = Regular\<rparr>"
  have a3: "ancestors ''f/x/y'' = [''f/x'', ''f'']"
    and a2: "ancestors ''f/x'' = [''f'']"
    and a1: "ancestors ''f'' = []"
    by (simp_all add: ancestors.simps parent_end_def IsPathSeparator_def)
  have st: "Stat table_fs ?s ''f'' = Inr ?fi"
    and nd: "\<not> IsDir ?fi"
    and x2: "Stat table_fs ?s ''f/x/y'' = Inl (PathError ''stat'' ''f/x/y'' (Some ENOENT))"
    and x1: "Stat table_fs ?s ''f/x'' = Inl (PathError ''stat'' ''f/x'' (Some ENOENT))"
    by (simp_all add: table_eval)
  have m3: "''f'' \<in> set (''f/x/y'' # ancestors ''f/x/y'')"
    and m1: "''f'' \<in> set (''f'' # ancestors ''f'')"
    by (simp_all add: a3)
  have b3: "\<forall>p \<in> set (''f/x/y'' # ancestors ''f/x/y'').
      ''f'' \<in> set (ancestors p) \<longrightarrow> (\<exists>e. Stat table_fs ?s p = Inl e)"
    by (simp add: a1 a2 a3 x1 x2)
  have b1: "\<forall>p \<in> set (''f'' # ancestors ''f'').
      ''f'' \<in> set (ancestors p) \<longrightarrow> (\<exists>e. Stat table_fs ?s p = Inl e)"
    by (simp add: a1)
  from MkdirAll_not_a_directory [OF m3 st nd b3, of "0x1ED"]
    MkdirAll_not_a_directory [OF m1 st nd b1, of "0x1ED"] a3 st nd x1 x2
  show ?thesis by simp
qed

text \<open>
  C3 as it is worded fails where the entry that is not a directory is one that \<open>Stat\<close>
  cannot resolve. On the table volume \<open>l\<close> is a dangling symbolic link: it exists
  (\<open>Lstat\<close> returns it, and it is not a directory) and it is the parent that \<open>MkdirAll\<close>
  of \<open>l/x\<close> walks to. \<open>Stat\<close> fails on \<open>l/x\<close> and on \<open>l\<close>, so \<open>Mkdir\<close> of \<open>l\<close> is
  attempted and fails with \<open>EEXIST\<close>, \<open>Lstat\<close> finds no directory, and the error returned
  is that of \<open>Mkdir\<close>: \<open>mkdir l: EEXIST\<close>, not \<open>ENOTDIR\<close>. The record shows the one call
  of \<open>glfs_mkdir\<close>; the volume itself is unchanged.
\<close>

theorem MkdirAll_dangling_link_counterexample:
  "''l'' \<in> set (''l/x'' # ancestors ''l/x'') \<and>
   Lstat table_fs [''l'' \<mapsto> Symlink] ''l'' = Inr \<lparr>fi_name = ''l'', fi_type = Symlink\<rparr> \<and>
   \<not> IsDir \<lparr>fi_name = ''l'', fi_type = Symlink\<rparr> \<and>
   MkdirAll table_fs [''l'' \<mapsto> Symlink] ''l/x'' 0x1ED =
     (Some (PathError ''mkdir'' ''l'' (Some EEXIST)), [''l'' \<mapsto> Symlink]) \<and>
   fst (MkdirAll table_fs [''l'' \<mapsto> Symlink] ''l/x'' 0x1ED) \<noteq>
     Some (PathError ''mkdir'' ''l'' (Some ENOTDIR)) \<and>
   fst (MkdirAll table_fs [''l'' \<mapsto> Symlink] ''l/x'' 0x1ED) \<noteq>
     Some (PathError ''mkdir'' ''l/x'' (Some ENOTDIR)) \<and>
   MkdirAll (logged table_fs) ([''l'' \<mapsto> Symlink], []) ''l/x'' 0x1ED =
     (Some (PathError ''mkdir'' ''l'' (Some EEXIST)), ([''l'' \<mapsto> Symlink], [''l'']))"
proof -
  let ?s = "[''l'' \<mapsto> Symlink]"
  have a: "ancestors ''l/x'' = [''l'']"
    by (simp add: ancestors.simps parent_end_def IsPathSeparator_def)
  have l: "Lstat table_fs ?s ''l'' = Inr \<lparr>fi_name = ''l'', fi_type = Symlink\<rparr>"
    and nd: "\<not> IsDir \<lparr>fi_name = ''l'', fi_type = Symlink\<rparr>"
    by (simp_all add: table_eval)
  have r: "MkdirAll table_fs ?s ''l/x'' 0x1ED =
      (Some (PathError ''mkdir'' ''l'' (Some EEXIST)), ?s)"
    by (simp add: MkdirAll.simps table_eval)
  have rl: "MkdirAll (logged table_fs) (?s, []) ''l/x'' 0x1ED =
      (Some (PathError ''mkdir'' ''l'' (Some EEXIST)), (?s, [''l'']))"
    by (simp add: MkdirAll.simps table_eval logged_def)
  have ne: "EEXIST \<noteq> ENOTDIR"
    by (simp add: EEXIST_def ENOTDIR_def)
  from a l nd r rl ne show ?thesis by simp
qed

section \<open>Directory entries and enumeration\<close>

lemma direntName_loop_eq:
  "direntName_loop i cs name = name @ takeWhile (\<lambda>c. c \<noteq> CHR 0x00) (take (256 - i) cs)"
proof (induction cs arbitrary: i name)
  case Nil
  show ?case by simp
next
  case (Cons c cs)
  show ?case
  proof (cases "c = CHR 0x00 \<or> i > 255")
    case True
    then show ?thesis by (cases "256 - i") auto
  next
    case False
    then have "256 - i = Suc (256 - (i + 1))" by arith
    with False Cons.IH [of "i + 1" "name @ [c]"] show ?thesis
      by (simp del: One_nat_def)
  qed
qed

text \<open>
  C5. \<open>direntName\<close> returns the bytes of the name buffer before the first zero byte among its
  first 256 elements, so never more than 256 bytes and nothing from behind a zero byte. A
  buffer of the declared length 256 without a zero byte is returned whole.
\<close>

theorem direntName_bounded:
  "direntName d = takeWhile (\<lambda>c. c \<noteq> CHR 0x00) (take 256 (Name d)) \<and>
   length (direntName d) \<le> 256 \<and>
   (length (Name d) = 256 \<and> CHR 0x00 \<notin> set (Name d) \<longrightarrow> direntName d = Name d)"
proof -
  have eq: "direntName d = takeWhile (\<lambda>c. c \<noteq> CHR 0x00) (take 256 (Name d))"
    by (simp add: direntName_def direntName_loop_eq)
  have "length (takeWhile (\<lambda>c. c \<noteq> CHR 0x00) (take 256 (Name d))) \<le> length (take 256 (Name d))"
    by (rule length_takeWhile_le)
  then have len: "length (direntName d) \<le> 256" by (simp add: eq)
  have "direntName d = Name d" if "length (Name d) = 256" "CHR 0x00 \<notin> set (Name d)"
  proof -
    from that have "\<forall>c \<in> set (take 256 (Name d)). c \<noteq> CHR 0x00" by auto
    then have "takeWhile (\<lambda>c. c \<noteq> CHR 0x00) (take 256 (Name d)) = take 256 (Name d)"
      by (simp only: takeWhile_eq_all_conv)
    with that eq show ?thesis by simp
  qed
  with eq len show ?thesis by blast
qed

text \<open>
  A buffer filled with 256 bytes \<open>x\<close> is returned whole; a buffer with \<open>ab\<close> and 254 zero
  bytes gives \<open>ab\<close>.
\<close>

theorem direntName_bounded_witness:
  "length (Name \<lparr>Name = replicate 256 (CHR ''x'')\<rparr>) = 256 \<and>
   CHR 0x00 \<notin> set (Name \<lparr>Name = replicate 256 (CHR ''x'')\<rparr>) \<and>
   direntName \<lparr>Name = replicate 256 (CHR ''x'')\<rparr> = replicate 256 (CHR ''x'') \<and>
   direntName \<lparr>Name = ''ab'' @ replicate 254 (CHR 0x00)\<rparr> = ''ab''"
  using direntName_bounded [of "\<lparr>Name = replicate 256 (CHR ''x'')\<rparr>"]
    direntName_bounded [of "\<lparr>Name = ''ab'' @ replicate 254 (CHR 0x00)\<rparr>"]
  by (simp add: numeral_eq_Suc)

lemma direntName_entry:
  assumes "length nm < 256" and "CHR 0x00 \<notin> set nm"
  shows "direntName (entry nm) = nm"
proof -
  have "takeWhile (\<lambda>c. c \<noteq> CHR 0x00) (nm @ replicate (256 - length nm) (CHR 0x00)) =
        nm @ takeWhile (\<lambda>c. c \<noteq> CHR 0x00) (replicate (256 - length nm) (CHR 0x00))"
    using assms(2) by (intro takeWhile_append2) auto
  then show ?thesis
    using assms(1) by (simp add: direntName_def direntName_loop_eq entry_def takeWhile_replicate)
qed

lemma list_readdir_simps:
  "list_readdir [] = ((None, None), [])"
  "list_readdir (d # ds) = ((Some d, None), ds)"
  by (simp_all add: list_readdir_def)

lemma list_readdirplus_simps:
  "list_readdirplus [] = ((None, None, \<lparr>st_type = Other\<rparr>), [])"
  "list_readdirplus ((d, st) # es) = ((Some d, None, st), es)"
  by (simp_all add: list_readdirplus_def)

text \<open>
  On a list-backed stream the loop returns: it serves the next \<open>n - i\<close> entries, or all of
  them when \<open>n = 0\<close>, and leaves the rest in the stream.
\<close>

lemma Readdirnames_loop_list:
  "Readdirnames_loop list_readdir n i ds names =
     Some ((names @ map direntName (take (if n = 0 then length ds else nat (n - i)) ds), None),
           drop (if n = 0 then length ds else nat (n - i)) ds)"
proof (induction ds arbitrary: i names)
  case Nil
  show ?case
    by (subst Readdirnames_loop.simps) (simp add: list_readdir_simps)
next
  case (Cons d ds)
  show ?case
  proof (cases "n = 0 \<or> i < n")
    case False
    then show ?thesis
      by (subst Readdirnames_loop.simps) simp
  next
    case True
    then have "n \<noteq> 0 \<Longrightarrow> nat (n - i) = Suc (nat (n - (i + 1)))" by arith
    with True Cons.IH [of "i + 1" "names @ [direntName d]"] show ?thesis
      by (subst Readdirnames_loop.simps) (auto simp: list_readdir_simps)
  qed
qed

lemma Readdir_loop_list:
  "Readdir_loop list_readdirplus n i es files =
     Some ((files @ map (\<lambda>(d, st). fileInfoFromStat st (direntName d))
                       (take (if n = 0 then length es else nat (n - i)) es), None),
           drop (if n = 0 then length es else nat (n - i)) es)"
proof (induction es arbitrary: i files)
  case Nil
  show ?case
    by (subst Readdir_loop.simps) (simp add: list_readdirplus_simps)
next
  case (Cons e es)
  obtain d st where e: "e = (d, st)" by (cases e)
  show ?case
  proof (cases "n = 0 \<or> i < n")
    case False
    then show ?thesis
      by (subst Readdir_loop.simps) simp
  next
    case True
    then have "n \<noteq> 0 \<Longrightarrow> nat (n - i) = Suc (nat (n - (i + 1)))" by arith
    with True Cons.IH [of "i + 1" "files @ [fileInfoFromStat st (direntName d)]"] show ?thesis
      by (subst Readdir_loop.simps) (auto simp: list_readdirplus_simps e)
  qed
qed

text \<open>
  C4, as the code has it. On a directory stream with the remaining entries \<open>ds\<close> (with stat
  data: \<open>es\<close>), both \<open>Readdirnames\<close> and \<open>Readdir\<close> return: with \<open>n = 0\<close> all remaining
  entries, leaving the stream empty; with \<open>n > 0\<close> the first \<open>n\<close> of the remaining entries
  (all of them if there are fewer), leaving the others in the stream for the next call; and
  on an exhausted stream the empty result with a \<open>nil\<close> error. So two entries at a time
  against five entries gives 2, then 2, then 1, then none.
\<close>

theorem Readdir_pagination:
  "Readdirnames list_readdir 0 ds = Some ((map direntName ds, None), []) \<and>
   Readdir list_readdirplus 0 es =
     Some ((map (\<lambda>(d, st). fileInfoFromStat st (direntName d)) es, None), []) \<and>
   (0 < n \<longrightarrow>
      Readdirnames list_readdir n ds =
        Some ((map direntName (take (nat n) ds), None), drop (nat n) ds) \<and>
      Readdir list_readdirplus n es =
        Some ((map (\<lambda>(d, st). fileInfoFromStat st (direntName d)) (take (nat n) es), None),
              drop (nat n) es)) \<and>
   Readdirnames list_readdir n [] = Some (([], None), []) \<and>
   Readdir list_readdirplus n [] = Some (([], None), [])"
  by (simp add: Readdirnames_def Readdir_def Readdirnames_loop_list Readdir_loop_list)

text \<open>Five entries \<open>a\<close> to \<open>e\<close>, read two at a time: \<open>a b\<close>, \<open>c d\<close>, \<open>e\<close>, then nothing.\<close>

theorem Readdir_pagination_witness:
  "(0::int) < 2 \<and>
   Readdirnames list_readdir 2 five_entries = Some (([''a'', ''b''], None), drop 2 five_entries) \<and>
   Readdirnames list_readdir 2 (drop 2 five_entries) =
     Some (([''c'', ''d''], None), drop 4 five_entries) \<and>
   Readdirnames list_readdir 2 (drop 4 five_entries) = Some (([''e''], None), []) \<and>
   Readdirnames list_readdir 2 [] = Some (([], None), []) \<and>
   Readdirnames list_readdir 0 (drop 2 five_entries) = Some (([''c'', ''d'', ''e''], None), [])"
  using Readdir_pagination [of five_entries "[]" 2]
    Readdir_pagination [of "drop 2 five_entries" "[]" 2]
    Readdir_pagination [of "drop 4 five_entries" "[]" 2]
  by (simp add: five_entries_def direntName_entry)

text \<open>
  The example of C4 as it is worded: after a first call with maximum count 2 against five
  entries, a second call with maximum count 2 does not return the remaining three entries.
\<close>

theorem Readdirnames_second_page_counterexample:
  "Readdirnames list_readdir 2 five_entries = Some (([''a'', ''b''], None), drop 2 five_entries) \<and>
   Readdirnames list_readdir 2 (drop 2 five_entries) \<noteq>
     Some ((map direntName (drop 2 five_entries), None), [])"
  by (simp add: Readdirnames_def Readdirnames_loop_list five_entries_def direntName_entry)

section \<open>Zero-length buffers\<close>

text \<open>
  \<open>Read\<close> and \<open>Write\<close> with a buffer of length zero pass the address of \<open>_zero\<close> and the
  count 0.
\<close>

lemma Read_zero_length:
  "Read glfs_read fd [] =
     (case glfs_read fd Zero 0 of ((n, e1), fd') \<Rightarrow> Inr ((n, if n < 0 then e1 else None), fd'))"
  by (simp add: Read_def)

lemma Write_zero_length:
  "Write glfs_write fd [] =
     (case glfs_write fd Zero 0 of ((n, e1), fd') \<Rightarrow> Inr ((n, if n < 0 then e1 else None), fd'))"
  by (simp add: Write_def)

text \<open>
  C6. \<open>Pread\<close> and \<open>Pwrite\<close> with a buffer of length zero (here at offset 0) do not reach the
  native call: evaluating \<open>&b[0]\<close> panics with an index out of range, where \<open>Read\<close> and
  \<open>Write\<close> pass the address of \<open>_zero\<close>.
\<close>

theorem Pread_zero_length_panics:
  "Pread glfs_pread fd [] 0 = Inl IndexOutOfRange \<and>
   Pwrite glfs_pwrite fd [] 0 = Inl IndexOutOfRange"
  by (simp add: Pread_def Pwrite_def addr0_def)

text \<open>
  C7. \<open>Readlink\<close> panics on every path, whatever the native call would do: its buffer is the
  \<open>nil\<close> slice and \<open>&buf[0]\<close> is evaluated for the call. It returns neither a target nor an
  error.
\<close>

theorem Readlink_panics: "Readlink glfs_readlink path = Inl IndexOutOfRange"
  by (simp add: Readlink_def addr0_def)

section \<open>Extended attributes and filesystem statistics\<close>

text \<open>
  C8. Where the native calls follow the convention of \<open>getxattr(2)\<close> for an attribute with
  the value \<open>v\<close>: \<open>Getxattr\<close> and \<open>Fgetxattr\<close> with a destination of length zero return the
  length of \<open>v\<close> and a \<open>nil\<close> error, with the destination still empty; with a destination that
  is large enough they return the same length and a \<open>nil\<close> error.
\<close>

theorem Getxattr_size_query:
  assumes "getxattr_convention (glfs_getxattr path attr) v"
    and "getxattr_convention (glfs_fgetxattr attr) v"
    and "length v \<le> length dest"
  shows "Getxattr glfs_getxattr path attr [] = ((int (length v), None), []) \<and>
         fst (Getxattr glfs_getxattr path attr dest) = (int (length v), None) \<and>
         Fgetxattr glfs_fgetxattr attr [] = ((int (length v), None), []) \<and>
         fst (Fgetxattr glfs_fgetxattr attr dest) = (int (length v), None)"
proof -
  have q: "fst (glfs_getxattr path attr None 0) = int (length v)"
    and fq: "fst (glfs_fgetxattr attr None 0) = int (length v)"
    using assms(1,2) by (simp_all add: getxattr_convention_def)
  have g0: "Getxattr glfs_getxattr path attr [] = ((int (length v), None), [])"
    using q by (cases "glfs_getxattr path attr None 0") (simp add: Getxattr_def)
  have f0: "Fgetxattr glfs_fgetxattr attr [] = ((int (length v), None), [])"
    using fq by (cases "glfs_fgetxattr attr None 0") (simp add: Fgetxattr_def)
  show ?thesis
  proof (cases "dest = []")
    case True
    with g0 f0 show ?thesis by simp
  next
    case False
    with assms have "fst (glfs_getxattr path attr (Some dest) (length dest)) = int (length v)"
      and "fst (glfs_fgetxattr attr (Some dest) (length dest)) = int (length v)"
      by (simp_all add: getxattr_convention_def)
    with False have "fst (Getxattr glfs_getxattr path attr dest) = (int (length v), None)"
      and "fst (Fgetxattr glfs_fgetxattr attr dest) = (int (length v), None)"
      by (cases "glfs_getxattr path attr (Some dest) (length dest)",
          simp add: Getxattr_def,
          cases "glfs_fgetxattr attr (Some dest) (length dest)",
          simp add: Fgetxattr_def)
    with g0 f0 show ?thesis by simp
  qed
qed

lemma table_getxattr_convention:
  "t (path, attr) = Some v \<Longrightarrow> getxattr_convention (table_getxattr t path attr) v"
  by (simp add: getxattr_convention_def table_getxattr_def)

text \<open>
  The attribute \<open>user.k\<close> of \<open>/f\<close> holds \<open>hello\<close>: the size query returns 5, and so does the
  read into a buffer of 8 bytes, which then starts with \<open>hello\<close>.
\<close>

theorem Getxattr_size_query_witness:
  "getxattr_convention
     (table_getxattr [(''/f'', ''user.k'') \<mapsto> ''hello''] ''/f'' ''user.k'') ''hello'' \<and>
   length ''hello'' \<le> length ''01234567'' \<and>
   Getxattr (table_getxattr [(''/f'', ''user.k'') \<mapsto> ''hello'']) ''/f'' ''user.k'' [] =
     ((5, None), []) \<and>
   Getxattr (table_getxattr [(''/f'', ''user.k'') \<mapsto> ''hello'']) ''/f'' ''user.k'' ''01234567'' =
     ((5, None), ''hello567'') \<and>
   Fgetxattr (table_getxattr [(''/f'', ''user.k'') \<mapsto> ''hello''] ''/f'') ''user.k'' [] =
     ((5, None), []) \<and>
   fst (Fgetxattr (table_getxattr [(''/f'', ''user.k'') \<mapsto> ''hello''] ''/f'') ''user.k''
          ''01234567'') = (5, None)"
proof -
  let ?t = "[(''/f'', ''user.k'') \<mapsto> ''hello'']"
  have c: "getxattr_convention (table_getxattr ?t ''/f'' ''user.k'') ''hello''"
    by (rule table_getxattr_convention) simp
  have l: "length ''hello'' \<le> length ''01234567''" by simp
  have "Getxattr (table_getxattr ?t) ''/f'' ''user.k'' ''01234567'' = ((5, None), ''hello567'')"
    by (simp add: Getxattr_def table_getxattr_def)
  with Getxattr_size_query [of "table_getxattr ?t" "''/f''" "''user.k''" "''hello''"
      "table_getxattr ?t ''/f''" "''01234567''", OF c c l] c
  show ?thesis by simp
qed

text \<open>
  C9. The buffer that \<open>Statvfs\<close> returns is \<open>nil\<close> whatever the native call does, also when
  the call reports success: on the path \<open>/\<close> with a call that returns 0 the result is the
  \<open>nil\<close> buffer with the \<open>nil\<close> error.
\<close>

theorem Statvfs_nil_buffer:
  "fst (Statvfs glfs_statvfs path) = None \<and>
   Statvfs (\<lambda>p b. (0, None)) ''/'' = (None, None)"
  by (simp add: Statvfs_def split: prod.splits)

section \<open>The directory flag of an opened file\<close>

lemma Open_eq: "Open glfs_open glfs_opendir s name flags =
   attempt_then_opendir glfs_opendir name (glfs_open s name (ucast flags))"
  by (simp add: Open_def attempt_then_opendir_def Let_def)

lemma OpenFile_eq: "OpenFile posix_mode glfs_creat glfs_open glfs_opendir s name flags perm =
   attempt_then_opendir glfs_opendir name (if O_CREATE AND flags = O_CREATE
                          then glfs_creat s name (ucast flags) (posix_mode perm)
                          else glfs_open s name (ucast flags))"
  by (simp add: OpenFile_def attempt_then_opendir_def Let_def)

lemma attempt_props:
  "(\<forall>f. fst (attempt_then_opendir glfs_opendir name first) = Inr f \<longrightarrow>
            (f_isDir f \<longleftrightarrow> snd (fst first) = Some EISDIR) \<and>
            (f_isDir f \<longrightarrow> fst (fst (glfs_opendir (snd first) name)) = Some (f_fd f)) \<and>
            (\<not> f_isDir f \<longrightarrow> fst (fst first) = Some (f_fd f))) \<and>
         (snd (fst first) = Some EISDIR \<and> fst (fst (glfs_opendir (snd first) name)) = Some h \<longrightarrow>
            attempt_then_opendir glfs_opendir name first = (Inr \<lparr>f_name = name, f_fd = h, f_isDir = True\<rparr>,
                      snd (glfs_opendir (snd first) name))) \<and>
         (snd (fst first) \<noteq> Some EISDIR \<and> fst (fst first) = Some h \<longrightarrow>
            attempt_then_opendir glfs_opendir name first = (Inr \<lparr>f_name = name, f_fd = h, f_isDir = False\<rparr>, snd first))"
proof (cases "snd (fst first) = Some EISDIR")
  case True
  obtain c e t where o: "glfs_opendir (snd first) name = ((c, e), t)"
    by (cases "glfs_opendir (snd first) name") auto
  show ?thesis using True o
    by (cases c) (auto simp: attempt_then_opendir_def)
next
  case False
  obtain c e t where o: "first = ((c, e), t)"
    by (cases first) auto
  show ?thesis using False o
    by (cases c) (auto simp: attempt_then_opendir_def)
qed

text \<open>
  C10. Let \<open>first\<close> be the result of the initial attempt: \<open>glfs_open\<close> for \<open>Open\<close>, and
  \<open>glfs_creat\<close> or \<open>glfs_open\<close>, by the \<open>O_CREATE\<close> bit of the flags, for \<open>OpenFile\<close>. When
  the operation returns a file, its directory flag is set exactly when the initial attempt
  reported \<open>EISDIR\<close>; then the descriptor is the one \<open>glfs_opendir\<close> returned, and otherwise it
  is the one of the initial attempt. So an initial attempt that fails with \<open>EISDIR\<close>,
  followed by a \<open>glfs_opendir\<close> that returns a descriptor \<open>h\<close>, yields the file with \<open>h\<close> and
  the flag set, and an initial attempt that returns a descriptor \<open>h\<close> without \<open>EISDIR\<close>
  yields the file with \<open>h\<close> and the flag clear.
\<close>

theorem Open_directory_flag:
  assumes "first = (if OpenFile_call
                    then (if O_CREATE AND flags = O_CREATE
                          then glfs_creat s name (ucast flags) (posix_mode perm)
                          else glfs_open s name (ucast flags))
                    else glfs_open s name (ucast flags))"
    and "result = (if OpenFile_call
                   then OpenFile posix_mode glfs_creat glfs_open glfs_opendir s name flags perm
                   else Open glfs_open glfs_opendir s name flags)"
  shows "(\<forall>f. fst result = Inr f \<longrightarrow>
            (f_isDir f \<longleftrightarrow> snd (fst first) = Some EISDIR) \<and>
            (f_isDir f \<longrightarrow> fst (fst (glfs_opendir (snd first) name)) = Some (f_fd f)) \<and>
            (\<not> f_isDir f \<longrightarrow> fst (fst first) = Some (f_fd f))) \<and>
         (snd (fst first) = Some EISDIR \<and> fst (fst (glfs_opendir (snd first) name)) = Some h \<longrightarrow>
            result = (Inr \<lparr>f_name = name, f_fd = h, f_isDir = True\<rparr>,
                      snd (glfs_opendir (snd first) name))) \<and>
         (snd (fst first) \<noteq> Some EISDIR \<and> fst (fst first) = Some h \<longrightarrow>
            result = (Inr \<lparr>f_name = name, f_fd = h, f_isDir = False\<rparr>, snd first))"
proof -
  have e: "result = attempt_then_opendir glfs_opendir name first"
  proof (cases OpenFile_call)
    case True
    from assms(2) have "result = OpenFile posix_mode glfs_creat glfs_open glfs_opendir s name flags perm"
      unfolding if_P [OF True] .
    moreover from assms(1) have "first = (if O_CREATE AND flags = O_CREATE
                    then glfs_creat s name (ucast flags) (posix_mode perm)
                    else glfs_open s name (ucast flags))"
      unfolding if_P [OF True] .
    ultimately show ?thesis by (simp only: OpenFile_eq)
  next
    case False
    from assms(2) have "result = Open glfs_open glfs_opendir s name flags"
      unfolding if_not_P [OF False] .
    moreover from assms(1) have "first = glfs_open s name (ucast flags)"
      unfolding if_not_P [OF False] .
    ultimately show ?thesis by (simp only: Open_eq)
  qed
  show ?thesis
    unfolding e by (rule attempt_props)
qed

text \<open>
  On the table volume with a directory \<open>d\<close> and a regular file \<open>r\<close>: \<open>Open\<close> of \<open>d\<close> gives
  the descriptor of \<open>glfs_opendir\<close> with the flag set, \<open>Open\<close> of \<open>r\<close> and \<open>OpenFile\<close> of \<open>r\<close>
  with \<open>O_CREATE\<close> give a descriptor with the flag clear.
\<close>

theorem Open_directory_flag_witness:
  "table_open [''d'' \<mapsto> Directory, ''r'' \<mapsto> Regular] ''d'' (ucast (0 :: 64 word)) =
     ((None, Some EISDIR), [''d'' \<mapsto> Directory, ''r'' \<mapsto> Regular]) \<and>
   table_opendir [''d'' \<mapsto> Directory, ''r'' \<mapsto> Regular] ''d'' =
     ((Some ''d'', None), [''d'' \<mapsto> Directory, ''r'' \<mapsto> Regular]) \<and>
   Open table_open table_opendir [''d'' \<mapsto> Directory, ''r'' \<mapsto> Regular] ''d'' 0 =
     (Inr \<lparr>f_name = ''d'', f_fd = ''d'', f_isDir = True\<rparr>,
      [''d'' \<mapsto> Directory, ''r'' \<mapsto> Regular]) \<and>
   table_open [''d'' \<mapsto> Directory, ''r'' \<mapsto> Regular] ''r'' (ucast (0 :: 64 word)) =
     ((Some ''r'', None), [''d'' \<mapsto> Directory, ''r'' \<mapsto> Regular]) \<and>
   Open table_open table_opendir [''d'' \<mapsto> Directory, ''r'' \<mapsto> Regular] ''r'' 0 =
     (Inr \<lparr>f_name = ''r'', f_fd = ''r'', f_isDir = False\<rparr>,
      [''d'' \<mapsto> Directory, ''r'' \<mapsto> Regular]) \<and>
   OpenFile (\<lambda>m. m AND 0x1FF) table_creat table_open table_opendir
       [''d'' \<mapsto> Directory, ''r'' \<mapsto> Regular] ''r'' 0x41 0x1A4 =
     (Inr \<lparr>f_name = ''r'', f_fd = ''r'', f_isDir = False\<rparr>,
      [''d'' \<mapsto> Directory, ''r'' \<mapsto> Regular])"
proof -
  let ?s = "[''d'' \<mapsto> Directory, ''r'' \<mapsto> Regular]"
  let ?pm = "\<lambda>m :: FileMode. m AND 0x1FF"
  have od: "table_open ?s ''d'' (ucast (0 :: 64 word)) = ((None, Some EISDIR), ?s)"
    and dd: "table_opendir ?s ''d'' = ((Some ''d'', None), ?s)"
    and or: "table_open ?s ''r'' (ucast (0 :: 64 word)) = ((Some ''r'', None), ?s)"
    and cr: "table_creat ?s ''r'' (ucast (0x41 :: 64 word)) (?pm 0x1A4) = ((Some ''r'', None), ?s)"
    by (simp_all add: table_open_def table_opendir_def table_creat_def)
  have c: "O_CREATE AND (0x41 :: 64 word) = O_CREATE" by (simp add: O_CREATE_def)
  have d1: "((None, Some EISDIR), ?s) =
      (if False
       then (if O_CREATE AND 0 = O_CREATE
             then table_creat ?s ''d'' (ucast (0 :: 64 word)) (?pm 0)
             else table_open ?s ''d'' (ucast (0 :: 64 word)))
       else table_open ?s ''d'' (ucast (0 :: 64 word)))"
    by (simp only: od if_False)
  have d2: "Open table_open table_opendir ?s ''d'' 0 =
      (if False
       then OpenFile ?pm table_creat table_open table_opendir ?s ''d'' 0 0
       else Open table_open table_opendir ?s ''d'' 0)"
    by (simp only: if_False)
  have r1: "((Some ''r'', None), ?s) =
      (if False
       then (if O_CREATE AND 0 = O_CREATE
             then table_creat ?s ''r'' (ucast (0 :: 64 word)) (?pm 0)
             else table_open ?s ''r'' (ucast (0 :: 64 word)))
       else table_open ?s ''r'' (ucast (0 :: 64 word)))"
    by (simp only: or if_False)
  have r2: "Open table_open table_opendir ?s ''r'' 0 =
      (if False
       then OpenFile ?pm table_creat table_open table_opendir ?s ''r'' 0 0
       else Open table_open table_opendir ?s ''r'' 0)"
    by (simp only: if_False)
  have f1: "((Some ''r'', None), ?s) =
      (if True
       then (if O_CREATE AND 0x41 = O_CREATE
             then table_creat ?s ''r'' (ucast (0x41 :: 64 word)) (?pm 0x1A4)
             else table_open ?s ''r'' (ucast (0x41 :: 64 word)))
       else table_open ?s ''r'' (ucast (0x41 :: 64 word)))"
    by (simp only: c cr if_True refl)
  have f2: "OpenFile ?pm table_creat table_open table_opendir ?s ''r'' 0x41 0x1A4 =
      (if True
       then OpenFile ?pm table_creat table_open table_opendir ?s ''r'' 0x41 0x1A4
       else Open table_open table_opendir ?s ''r'' 0x41)"
    by (simp only: if_True)
  have "Open table_open table_opendir ?s ''d'' 0 =
      (Inr \<lparr>f_name = ''d'', f_fd = ''d'', f_isDir = True\<rparr>, ?s)"
    using Open_directory_flag [OF d1 d2, of "''d''", THEN conjunct2, THEN conjunct1]
    by (simp add: dd)
  moreover have "Open table_open table_opendir ?s ''r'' 0 =
      (Inr \<lparr>f_name = ''r'', f_fd = ''r'', f_isDir = False\<rparr>, ?s)"
    using Open_directory_flag [OF r1 r2, of "''r''", THEN conjunct2, THEN conjunct2]
    by simp
  moreover have "OpenFile ?pm table_creat table_open table_opendir ?s ''r'' 0x41 0x1A4 =
      (Inr \<lparr>f_name = ''r'', f_fd = ''r'', f_isDir = False\<rparr>, ?s)"
    using Open_directory_flag [OF f1 f2, of "''r''", THEN conjunct2, THEN conjunct2]
    by simp
  ultimately show ?thesis
    using od dd or by simp
qed

end
